theory Spec2Isabelle
  imports Complex_Main "HOL-Library.List_Lexorder" "HOL-Library.Product_Lexorder"
    "HOL-Library.Multiset"
begin

section \<open>Python values and strings\<close>

text \<open>
  A Python \<open>str\<close> is a sequence of Unicode code points, so it is modelled as a list of
  natural numbers. ASCII literals are written through \<open>ascii\<close>. Lists are compared
  lexicographically (as Python compares strings), triples likewise (as Python compares
  tuples). Floating-point numbers are modelled by exact rationals together with NaN; the
  rounding error of IEEE arithmetic is outside the model.
\<close>

type_synonym ustr = "nat list"

definition ascii :: "string \<Rightarrow> ustr" where
  "ascii s = map of_char s"

datatype pyval =
    PNone
  | PNaN
  | PInt int
  | PStr ustr
  | PList "pyval list"
  | PTuple "pyval list"
  | POther nat  \<comment> \<open>any other object that is not missing: a float, a bool, a dict, ...\<close>

datatype pyfloat = NaN | Fin rat

datatype error = ValueError

definition py_isspace :: "nat \<Rightarrow> bool" where
  \<comment> \<open>\<open>str.isspace\<close> on one code point: the characters \<open>strip()\<close> and \<open>split()\<close> remove.\<close>
  "py_isspace c \<longleftrightarrow>
     (9 \<le> c \<and> c \<le> 13) \<or> (28 \<le> c \<and> c \<le> 32) \<or> c = 133 \<or> c = 160 \<or> c = 5760 \<or>
     (8192 \<le> c \<and> c \<le> 8202) \<or> c = 8232 \<or> c = 8233 \<or> c = 8239 \<or> c = 8287 \<or> c = 12288"

definition strip :: "ustr \<Rightarrow> ustr" where
  "strip s = rev (dropWhile py_isspace (rev (dropWhile py_isspace s)))"

definition remove_char :: "nat \<Rightarrow> ustr \<Rightarrow> ustr" where
  \<comment> \<open>\<open>s.replace(c, "")\<close> for a one-character \<open>c\<close>\<close>
  "remove_char c s = filter (\<lambda>x. x \<noteq> c) s"

definition startswith :: "ustr \<Rightarrow> ustr \<Rightarrow> bool" where
  "startswith p s \<longleftrightarrow> take (length p) s = p"

definition endswith :: "ustr \<Rightarrow> ustr \<Rightarrow> bool" where
  "endswith p s \<longleftrightarrow> length p \<le> length s \<and> drop (length s - length p) s = p"

fun split_on :: "nat \<Rightarrow> ustr \<Rightarrow> ustr list" where
  \<comment> \<open>\<open>s.split(c)\<close> for a one-character separator: always at least one piece\<close>
  "split_on c [] = [[]]"
| "split_on c (x # xs) =
     (if x = c then [] # split_on c xs
      else (case split_on c xs of [] \<Rightarrow> [[x]] | w # ws \<Rightarrow> (x # w) # ws))"

section \<open>Version parsing and ordering (Overview page)\<close>










definition unique :: "'a list \<Rightarrow> 'a list" where
  \<comment> \<open>\<open>Series.unique()\<close>: the distinct values in order of first appearance\<close>
  "unique xs = rev (remdups (rev xs))"






section \<open>The list-field parser (Overview page)\<close>

text \<open>
  \<open>robust_eval_list\<close> starts with the test \<open>pd.isna(val) or val == ""\<close>. For a scalar,
  \<open>pd.isna\<close> is a boolean. For a list it is the array \<open>np.asarray(val, dtype=object)\<close>
  mapped to booleans, and the \<open>if\<close> asks for the truth value of that array: the single item
  when the array has one item, \<open>ValueError\<close> when it has more, and for an array without
  items what the installed numpy gives (\<open>False\<close> with a warning up to numpy 2.1, an error
  afterwards): the parameter \<open>empty_truth\<close>. The array's shape is found as numpy finds it:
  nested lists and tuples add a dimension as long as all of them have the same length.
  \<open>ast.literal_eval\<close> is the parameter \<open>literal_eval\<close>, with \<open>None\<close> when it raises.
\<close>

fun lcp :: "nat list \<Rightarrow> nat list \<Rightarrow> nat list" where
  "lcp (x # xs) (y # ys) = (if x = y then x # lcp xs ys else [])"
| "lcp _ _ = []"

fun array_shape :: "pyval \<Rightarrow> nat list" where
  "array_shape (PList xs) =
     length xs # (case map array_shape xs of [] \<Rightarrow> [] | s # ss \<Rightarrow> foldl lcp s ss)"
| "array_shape (PTuple xs) =
     length xs # (case map array_shape xs of [] \<Rightarrow> [] | s # ss \<Rightarrow> foldl lcp s ss)"
| "array_shape _ = []"

fun array_items :: "nat \<Rightarrow> pyval \<Rightarrow> pyval list" where
  "array_items (Suc d) (PList xs) = concat (map (array_items d) xs)"
| "array_items (Suc d) (PTuple xs) = concat (map (array_items d) xs)"
| "array_items _ v = [v]"

definition checknull :: "pyval \<Rightarrow> bool" where
  "checknull v \<longleftrightarrow> v = PNone \<or> v = PNaN"

definition isna_truth :: "(error + bool) \<Rightarrow> pyval \<Rightarrow> error + bool" where
  \<comment> \<open>\<open>bool(pd.isna(val))\<close>\<close>
  "isna_truth empty_truth val =
     (case val of
        PList xs \<Rightarrow>
          (case array_items (length (array_shape val)) val of
             [] \<Rightarrow> empty_truth
           | [x] \<Rightarrow> Inr (checknull x)
           | _ \<Rightarrow> Inl ValueError)
      | _ \<Rightarrow> Inr (checknull val))"

definition comma_split :: "ustr \<Rightarrow> ustr list" where
  \<comment> \<open>the fallback: drop brackets and quotes, split on commas, trim, drop empty tokens\<close>
  "comma_split val =
     (let cleaned = remove_char 34 (remove_char 39 (remove_char 93 (remove_char 91 val)))
      in filter (\<lambda>x. x \<noteq> []) (map strip (split_on 44 cleaned)))"

definition bracketed :: "ustr \<Rightarrow> bool" where
  "bracketed val \<longleftrightarrow> startswith [91] val \<and> endswith [93] val"

definition robust_eval_list ::
  "(ustr \<Rightarrow> pyval option) \<Rightarrow> (error + bool) \<Rightarrow> pyval \<Rightarrow> error + pyval" where
  "robust_eval_list literal_eval empty_truth val =
     (case isna_truth empty_truth val of
        Inl e \<Rightarrow> Inl e
      | Inr na \<Rightarrow>
          if na \<or> val = PStr [] then Inr (PList [])
          else (case val of
                  PList xs \<Rightarrow> Inr val
                | PStr s \<Rightarrow>
                    (let val = strip s in
                     if val = [91, 93] then Inr (PList [])
                     else (case (if bracketed val then literal_eval val else None) of
                             Some parsed \<Rightarrow> Inr parsed
                           | None \<Rightarrow> Inr (PList (map PStr (comma_split val)))))
                | _ \<Rightarrow> Inr (PList [])))"

text \<open>
  The two textual encodings of a list of tokens: Python's list literal with single-quoted
  items, and the items joined by a comma and a space.
\<close>

fun join :: "ustr \<Rightarrow> ustr list \<Rightarrow> ustr" where
  "join sep [] = []"
| "join sep [x] = x"
| "join sep (x # y # ys) = x @ sep @ join sep (y # ys)"

definition list_literal :: "ustr list \<Rightarrow> ustr" where
  "list_literal xs = [91] @ join [44, 32] (map (\<lambda>x. [39] @ x @ [39]) xs) @ [93]"

definition comma_join :: "ustr list \<Rightarrow> ustr" where
  "comma_join xs = join [44, 32] xs"

definition clean_token :: "ustr \<Rightarrow> bool" where
  \<comment> \<open>a token that the comma-split fallback returns as it is\<close>
  "clean_token x \<longleftrightarrow>
     x \<noteq> [] \<and> \<not> py_isspace (hd x) \<and> \<not> py_isspace (last x) \<and>
     list_all (\<lambda>c. c \<noteq> 44 \<and> c \<noteq> 91 \<and> c \<noteq> 93 \<and> c \<noteq> 39 \<and> c \<noteq> 34) x"

section \<open>Keyword consolidation (Overview page)\<close>

text \<open>The canonical labels of \<open>map_dict\<close>, then the dictionary in the order of the source.\<close>

definition kw_fun :: ustr where
  "kw_fun = [51116, 48120]"

definition kw_game :: ustr where
  "kw_game = [44172, 51076]"

definition kw_update :: ustr where
  "kw_update = [50629, 45936, 51060, 53944]"

definition kw_hit_feel :: ustr where
  "kw_hit_feel = [53440, 44201, 44048]"

definition kw_optimization :: ustr where
  "kw_optimization = [52572, 51201, 54868]"

definition kw_character :: ustr where
  "kw_character = [52880, 47533, 53552]"

definition kw_billing :: ustr where
  "kw_billing = [44284, 44552]"

definition kw_operation :: ustr where
  "kw_operation = [50868, 50689]"

definition kw_story :: ustr where
  "kw_story = [49828, 53664, 47532]"

definition kw_art_graphics :: ustr where
  "kw_art_graphics = [50500, 53944, 47, 44536, 47000, 54589]"

definition map_dict :: "(ustr \<times> ustr) list" where
  "map_dict =
    [([51116, 48120, 51080, 45716], kw_fun),
     ([51116, 48140, 45716], kw_fun),
     ([44992, 51132], kw_fun),
     ([51316, 51132], kw_fun),
     ([51132], kw_fun),
     ([44172, 51076, 54540, 47112, 51060], kw_game),
     ([54540, 47112, 51060], kw_game),
     ([71, 97, 109, 101], kw_game),
     ([50629, 45955], kw_update),
     ([54056, 52824], kw_update),
     ([50629, 44536, 47112, 51060, 46300], kw_update),
     ([53440, 44201], kw_hit_feel),
     ([47001], kw_optimization),
     ([47113], kw_optimization),
     ([53909, 44608], kw_optimization),
     ([48156, 50676], kw_optimization),
     ([48260, 48261], kw_optimization),
     ([45130, 44608], kw_optimization),
     ([52880, 47533], kw_character),
     ([50668, 52880], kw_character),
     ([45224, 52880], kw_character),
     ([54788, 51656], kw_billing),
     ([44284, 44552, 50976, 46020], kw_billing),
     ([50868, 50689, 51088], kw_operation),
     ([44060, 48156, 51088], kw_operation),
     ([49828, 53664, 47532], kw_story),
     ([50500, 53944], kw_art_graphics),
     ([44536, 47000, 54589], kw_art_graphics),
     ([51068, 47084], kw_art_graphics),
     ([51068, 47084, 49828, 53944], kw_art_graphics)]"

definition normalize_kw_display :: "pyval \<Rightarrow> pyval" where
  "normalize_kw_display text =
     (case text of
        PStr t \<Rightarrow>
          (let text = strip t; text_ns = remove_char 32 text in
           case map_of map_dict text of
             Some v \<Rightarrow> PStr v
           | None \<Rightarrow>
               (case map_of map_dict text_ns of
                  Some v \<Rightarrow> PStr v
                | None \<Rightarrow> PStr text))
      | _ \<Rightarrow> text)"


section \<open>Floating-point helpers\<close>

fun fadd :: "pyfloat \<Rightarrow> pyfloat \<Rightarrow> pyfloat" where
  "fadd (Fin a) (Fin b) = Fin (a + b)"
| "fadd _ _ = NaN"

fun fsub :: "pyfloat \<Rightarrow> pyfloat \<Rightarrow> pyfloat" where
  "fsub (Fin a) (Fin b) = Fin (a - b)"
| "fsub _ _ = NaN"

fun fmul :: "pyfloat \<Rightarrow> pyfloat \<Rightarrow> pyfloat" where
  "fmul (Fin a) (Fin b) = Fin (a * b)"
| "fmul _ _ = NaN"

fun fgreater :: "pyfloat \<Rightarrow> pyfloat \<Rightarrow> bool" where
  \<comment> \<open>\<open>a > b\<close>: false as soon as one side is NaN\<close>
  "fgreater (Fin a) (Fin b) = (a > b)"
| "fgreater _ _ = False"

fun fle :: "pyfloat \<Rightarrow> pyfloat \<Rightarrow> bool" where
  \<comment> \<open>\<open>a <= b\<close>: false as soon as one side is NaN\<close>
  "fle (Fin a) (Fin b) = (a \<le> b)"
| "fle _ _ = False"

definition py_max :: "pyfloat \<Rightarrow> pyfloat \<Rightarrow> pyfloat" where
  \<comment> \<open>the builtin \<open>max(a, b)\<close>: \<open>b\<close> only if \<open>b > a\<close>\<close>
  "py_max a b = (if fgreater b a then b else a)"

definition round_half_even :: "rat \<Rightarrow> int" where
  "round_half_even x =
     (let f = \<lfloor>x\<rfloor>; d = x - of_int f
      in if d < 1 / 2 then f else if 1 / 2 < d then f + 1 else if even f then f else f + 1)"

fun py_round2 :: "pyfloat \<Rightarrow> pyfloat" where
  \<comment> \<open>\<open>round(x, 2)\<close>\<close>
  "py_round2 NaN = NaN"
| "py_round2 (Fin x) = Fin (of_int (round_half_even (x * 100)) / 100)"

definition mean :: "rat list \<Rightarrow> pyfloat" where
  \<comment> \<open>\<open>Series.mean()\<close> of a column without missing values: NaN when there is no row\<close>
  "mean xs = (if xs = [] then NaN else Fin (sum_list xs / of_nat (length xs)))"

section \<open>Cluster aggregation (Main and Overview pages)\<close>

text \<open>
  The rows the cluster matrix reads, after the loader has made \<open>cluster\<close> a string and
  the Overview page has coerced \<open>score\<close> to an integer and \<open>intensity\<close> to a number.
\<close>

record crec =
  reviewId :: "ustr option"
  cluster :: ustr
  intensity :: rat
  score :: int

datatype group_type = Negative_Risk | Positive_Strength

record cluster_stats =
  cs_cluster :: ustr
  cs_count :: nat
  avg_intensity :: pyfloat
  avg_score :: pyfloat
  impact_score :: pyfloat
  cs_group_type :: group_type

definition noise_cluster :: ustr where
  \<comment> \<open>the string \<open>"-1"\<close>\<close>
  "noise_cluster = [45, 49]"

definition determine_group_type :: "ustr \<Rightarrow> pyfloat \<Rightarrow> group_type" where
  \<comment> \<open>the arguments are \<open>str(row['cluster'])\<close> and \<open>row['avg_score']\<close>\<close>
  "determine_group_type cid avg =
     (if startswith [78, 45] cid then Negative_Risk
      else if startswith [80, 45] cid then Positive_Strength
      else if fle avg (Fin (32 / 10)) then Negative_Risk
      else Positive_Strength)"

definition c_df :: "crec list \<Rightarrow> crec list" where
  \<comment> \<open>\<open>c_df[c_df['cluster'].astype(str) != "-1"]\<close>\<close>
  "c_df df = filter (\<lambda>r. cluster r \<noteq> noise_cluster) df"

definition aggregate :: "ustr \<Rightarrow> crec list \<Rightarrow> cluster_stats" where
  \<comment> \<open>one row of \<open>groupby("cluster").agg(...)\<close> with \<open>impact_score\<close> and \<open>group_type\<close>;
      the columns \<open>main_sentiment\<close>, \<open>main_category\<close> and \<open>keywords_label\<close> are left out\<close>
  "aggregate cid rows =
     (let n = length (filter (\<lambda>r. reviewId r \<noteq> None) rows);
          ai = mean (map intensity rows);
          sc = mean (map (\<lambda>r. of_int (score r)) rows)
      in \<lparr>cs_cluster = cid, cs_count = n, avg_intensity = ai, avg_score = sc,
          impact_score = fmul (Fin (of_nat n)) ai,
          cs_group_type = determine_group_type cid sc\<rparr>)"

definition base_stats :: "crec list \<Rightarrow> cluster_stats list" where
  \<comment> \<open>the groups come in the order of their keys\<close>
  "base_stats df =
     map (\<lambda>cid. aggregate cid (filter (\<lambda>r. cluster r = cid) (c_df df)))
       (sort (remdups (map cluster (c_df df))))"

fun collect :: "('a \<Rightarrow> error + 'b) \<Rightarrow> 'a list \<Rightarrow> error + 'b list" where
  \<comment> \<open>a loop whose body may raise: the first exception ends it\<close>
  "collect f [] = Inr []"
| "collect f (x # xs) =
     (case f x of
        Inl e \<Rightarrow> Inl e
      | Inr y \<Rightarrow> (case collect f xs of Inl e \<Rightarrow> Inl e | Inr ys \<Rightarrow> Inr (y # ys)))"

definition cluster_info ::
  "(crec list \<Rightarrow> error + 'v) \<Rightarrow> crec list \<Rightarrow> error + (ustr \<times> 'v) list" where
  \<comment> \<open>the loop of \<open>load_data\<close> that fills the dictionary \<open>cluster_info\<close>, as the list of its
      items. \<open>top_keywords\<close> stands for the body that counts the keywords of the sample.\<close>
  "cluster_info top_keywords main_df =
     collect
       (\<lambda>cid. case top_keywords (take 50 (filter (\<lambda>r. cluster r = cid) main_df)) of
                 Inl e \<Rightarrow> Inl e
               | Inr kws \<Rightarrow> Inr (cid, kws))
       (filter (\<lambda>cid. cid \<noteq> noise_cluster) (unique (map cluster main_df)))"

section \<open>Score coercion (Overview and Update Impact Checker pages)\<close>

datatype score_cell =
    Numeric rat   \<comment> \<open>a number, or text that \<open>pd.to_numeric\<close> reads as this number\<close>
  | NonNumeric    \<comment> \<open>text that is not a number\<close>
  | MissingScore

record raw_review =
  raw_at :: "int option"       \<comment> \<open>\<open>pd.to_datetime(..., errors="coerce")\<close>; \<open>None\<close> is NaT\<close>
  raw_content :: "ustr option"
  raw_score :: score_cell

fun to_numeric :: "score_cell \<Rightarrow> pyfloat" where
  \<comment> \<open>\<open>pd.to_numeric(..., errors="coerce")\<close>\<close>
  "to_numeric (Numeric x) = Fin x"
| "to_numeric _ = NaN"

definition astype_int :: "rat \<Rightarrow> int" where
  \<comment> \<open>\<open>astype(int)\<close> truncates towards zero\<close>
  "astype_int x = (if 0 \<le> x then \<lfloor>x\<rfloor> else \<lceil>x\<rceil>)"


definition dropna_at :: "raw_review list \<Rightarrow> raw_review list" where
  \<comment> \<open>\<open>df.dropna(subset=["at"])\<close>, the first step of both pages\<close>
  "dropna_at df = filter (\<lambda>r. raw_at r \<noteq> None) df"



record review =
  r_at :: int
  content :: "ustr option"
  r_score :: int

definition checker_df :: "raw_review list \<Rightarrow> review list" where
  \<comment> \<open>the Update Impact Checker: rows without a date, then rows without a numeric score,
      are dropped; the score becomes an integer\<close>
  "checker_df df =
     List.map_filter
       (\<lambda>r. case (raw_at r, to_numeric (raw_score r)) of
               (Some t, Fin x) \<Rightarrow> Some \<lparr>r_at = t, content = raw_content r, r_score = astype_int x\<rparr>
             | _ \<Rightarrow> None)
       df"

section \<open>Update impact (Update Impact Checker page)\<close>

text \<open>
  A cell of the columns \<open>before_avg\<close> and \<open>after_avg\<close> holds \<open>None\<close> or a float. The loop
  builds the rows as dictionaries; \<open>pd.DataFrame(results)\<close> turns them into columns,
  and a column that holds at least one float becomes a float column, in which \<open>None\<close> is
  stored as NaN. \<open>str.contains(keyword, case=False, regex=False)\<close> compares the
  upper-cased strings; \<open>str.upper\<close> is the parameter \<open>upper\<close>.
\<close>

datatype cell = CNone | CFloat pyfloat

record impact_row =
  change :: ustr
  before_count :: int
  after_count :: int
  before_avg :: cell
  after_avg :: cell

definition compute_score :: "impact_row \<Rightarrow> pyfloat" where
  "compute_score row =
     (let s = Fin 0;
          s = (if before_count row > 0
               then fadd s (Fin (of_int (before_count row - after_count row)
                                   / of_int (before_count row) * 50))
               else s);
          s = (case (before_avg row, after_avg row) of
                 (CFloat b, CFloat a) \<Rightarrow> fadd s (fmul (fsub a b) (Fin 10))
               | _ \<Rightarrow> s)
      in py_round2 (py_max s (Fin 0)))"

fun is_substr :: "ustr \<Rightarrow> ustr \<Rightarrow> bool" where
  \<comment> \<open>\<open>p in s\<close>\<close>
  "is_substr p [] = (p = [])"
| "is_substr p (x # xs) = (startswith p (x # xs) \<or> is_substr p xs)"

definition str_contains :: "(ustr \<Rightarrow> ustr) \<Rightarrow> ustr \<Rightarrow> ustr option \<Rightarrow> bool" where
  \<comment> \<open>one row of \<open>df["content"].fillna("").str.contains(keyword, case=False, regex=False)\<close>\<close>
  "str_contains upper keyword c =
     is_substr (upper keyword) (upper (case c of None \<Rightarrow> [] | Some t \<Rightarrow> t))"

definition first_token :: "ustr \<Rightarrow> ustr option" where
  \<comment> \<open>\<open>change.split()\<close>, then \<open>tokens[0]\<close>; \<open>None\<close> when there is no token\<close>
  "first_token s =
     (let t = dropWhile py_isspace s
      in if t = [] then None else Some (takeWhile (\<lambda>c. \<not> py_isspace c) t))"

definition avg_cell :: "review list \<Rightarrow> cell" where
  \<comment> \<open>\<open>sub["score"].mean() if len(sub) > 0 else None\<close>\<close>
  "avg_cell sub =
     (if length sub > 0 then CFloat (mean (map (\<lambda>r. of_int (r_score r)) sub)) else CNone)"

definition results ::
  "(ustr \<Rightarrow> ustr) \<Rightarrow> review list \<Rightarrow> review list \<Rightarrow> ustr list \<Rightarrow> impact_row list" where
  "results upper before_df after_df changes =
     List.map_filter
       (\<lambda>chg. case first_token chg of
                 None \<Rightarrow> None
               | Some keyword \<Rightarrow>
                   (let before_sub = filter (\<lambda>r. str_contains upper keyword (content r)) before_df;
                        after_sub = filter (\<lambda>r. str_contains upper keyword (content r)) after_df
                    in Some \<lparr>change = chg,
                             before_count = int (length before_sub),
                             after_count = int (length after_sub),
                             before_avg = avg_cell before_sub,
                             after_avg = avg_cell after_sub\<rparr>))
       changes"

definition frame_column :: "cell list \<Rightarrow> cell list" where
  \<comment> \<open>a column of \<open>pd.DataFrame(results)\<close>: all \<open>None\<close> stays as it is, otherwise the
      column is a float column and \<open>None\<close> becomes NaN\<close>
  "frame_column col =
     (if list_all (\<lambda>c. c = CNone) col then col
      else map (\<lambda>c. case c of CNone \<Rightarrow> CFloat NaN | CFloat x \<Rightarrow> CFloat x) col)"

definition impact_df :: "impact_row list \<Rightarrow> impact_row list" where
  \<comment> \<open>\<open>pd.DataFrame(results)\<close>\<close>
  "impact_df rs =
     map (\<lambda>(r, b, a). r\<lparr>before_avg := b, after_avg := a\<rparr>)
       (zip rs (zip (frame_column (map before_avg rs)) (frame_column (map after_avg rs))))"

definition changes_of :: "ustr \<Rightarrow> ustr list" where
  \<comment> \<open>\<open>[line.strip() for line in release_text.split("\n") if line.strip()]\<close>\<close>
  "changes_of release_text = filter (\<lambda>l. l \<noteq> []) (map strip (split_on 10 release_text))"

definition impact_scores ::
  "(ustr \<Rightarrow> ustr) \<Rightarrow> raw_review list \<Rightarrow> ustr \<Rightarrow> int \<Rightarrow> (ustr \<times> pyfloat) list option" where
  \<comment> \<open>the page from the loaded frame to the table of \<open>change\<close> and \<open>impact_score\<close>;
      \<open>None\<close> where the page stops (\<open>st.stop()\<close>) before the table\<close>
  "impact_scores upper raw release_text update_date =
     (if dropna_at raw = [] then None
      else if strip release_text = [] then None
      else
        let df = checker_df raw;
            before_df = filter (\<lambda>r. r_at r < update_date) df;
            after_df = filter (\<lambda>r. r_at r \<ge> update_date) df
        in if before_df = [] \<or> after_df = [] then None
           else Some (map (\<lambda>row. (change row, compute_score row))
                        (impact_df (results upper before_df after_df (changes_of release_text)))))"

definition ascii_upper :: "ustr \<Rightarrow> ustr" where
  \<comment> \<open>\<open>str.upper\<close> on ASCII text\<close>
  "ascii_upper s = map (\<lambda>c. if 97 \<le> c \<and> c \<le> 122 then c - 32 else c) s"

section \<open>Example data\<close>


definition ex_crecs :: "crec list" where
  "ex_crecs = [\<lparr>reviewId = Some (ascii ''r1''), cluster = ascii ''N-1'', intensity = 3, score = 5\<rparr>,
               \<lparr>reviewId = Some (ascii ''r2''), cluster = ascii ''-1'', intensity = 2, score = 1\<rparr>]"

definition ex_stats :: cluster_stats where
  "ex_stats = \<lparr>cs_cluster = ascii ''N-1'', cs_count = 1, avg_intensity = Fin 3, avg_score = Fin 5,
      impact_score = Fin 3, cs_group_type = Negative_Risk\<rparr>"

section \<open>Auxiliary notions for the properties\<close>

definition trimmed :: "ustr \<Rightarrow> bool" where
  \<comment> \<open>no white space at either end\<close>
  "trimmed y \<longleftrightarrow> y = [] \<or> (\<not> py_isspace (hd y) \<and> \<not> py_isspace (last y))"

definition canonical :: "ustr list" where
  \<comment> \<open>the values of \<open>map_dict\<close>\<close>
  "canonical = [kw_fun, kw_game, kw_update, kw_hit_feel, kw_optimization, kw_character,
                kw_billing, kw_operation, kw_story, kw_art_graphics]"



definition ex_reviews :: "raw_review list" where
  \<comment> \<open>one review before the update date 5 and two from it on\<close>
  "ex_reviews =
     [\<lparr>raw_at = Some 1, raw_content = Some (ascii ''Lag is bad''), raw_score = Numeric 2\<rparr>,
      \<lparr>raw_at = Some 5, raw_content = Some (ascii ''lag is ok''), raw_score = Numeric 4\<rparr>,
      \<lparr>raw_at = Some 6, raw_content = Some (ascii ''crash''), raw_score = Numeric 1\<rparr>]"

definition ex_release :: ustr where
  \<comment> \<open>release notes of two lines\<close>
  "ex_release = ascii ''lag fix'' @ [10] @ ascii ''Crash fix''"




definition ex_keywords :: "ustr list" where
  \<comment> \<open>two keywords\<close>
  "ex_keywords = [ascii ''lag'', ascii ''crash'']"

definition ex_literal_eval :: "ustr \<Rightarrow> pyval option" where
  \<comment> \<open>\<open>ast.literal_eval\<close> on the two texts of the examples: the list literal of
      \<open>ex_keywords\<close> parses, anything else here does not\<close>
  "ex_literal_eval s =
     (if s = list_literal ex_keywords then Some (PList (map PStr ex_keywords)) else None)"

definition ex_malformed :: ustr where
  \<comment> \<open>the text \<open>[lag,, crash]\<close>, which is not a Python literal\<close>
  "ex_malformed = [91] @ ascii ''lag,, crash'' @ [93]"

definition ex_quoted :: ustr where
  \<comment> \<open>the keyword \<open>it's\<close>\<close>
  "ex_quoted = ascii ''it'' @ [39] @ ascii ''s''"

section \<open>Version parsing and ordering: properties\<close>














section \<open>Cluster aggregation: properties\<close>

lemma startswith_iff: "startswith p s \<longleftrightarrow> (\<exists>rest. s = p @ rest)"
proof
  assume "startswith p s"
  then have "s = p @ drop (length p) s"
    unfolding startswith_def by (metis append_take_drop_id)
  then show "\<exists>rest. s = p @ rest" ..
next
  assume "\<exists>rest. s = p @ rest"
  then show "startswith p s" by (auto simp: startswith_def)
qed

lemma base_stats_row:
  assumes "row \<in> set (base_stats df)"
  obtains cid where "cid \<in> set (map cluster (c_df df))"
    and "row = aggregate cid (filter (\<lambda>r. cluster r = cid) (c_df df))"
  using assms by (auto simp: base_stats_def)

lemma group_nonempty:
  "cid \<in> set (map cluster rows) \<Longrightarrow> filter (\<lambda>r. cluster r = cid) rows \<noteq> []"
  by (induction rows) auto

text \<open>
  C3. For every row of the cluster aggregates, the average score is a number, and
  \<open>group_type\<close> is Negative (Risk) when the cluster id starts with \<open>N-\<close>, Positive
  (Strength) when it starts with \<open>P-\<close>, and for any other id Negative (Risk) exactly
  when the average score is at most 3.2, Positive (Strength) otherwise.
\<close>

theorem group_type_rule:
  assumes "row \<in> set (base_stats df)"
  shows "\<exists>q. avg_score row = Fin q \<and>
     cs_group_type row =
       (if \<exists>rest. cs_cluster row = [78, 45] @ rest then Negative_Risk
        else if \<exists>rest. cs_cluster row = [80, 45] @ rest then Positive_Strength
        else if q \<le> 32 / 10 then Negative_Risk
        else Positive_Strength)"
proof -
  from assms obtain cid where cid: "cid \<in> set (map cluster (c_df df))"
    and row: "row = aggregate cid (filter (\<lambda>r. cluster r = cid) (c_df df))"
    by (rule base_stats_row)
  let ?g = "filter (\<lambda>r. cluster r = cid) (c_df df)"
  have ne: "?g \<noteq> []" using cid by (rule group_nonempty)
  then obtain q where q: "mean (map (\<lambda>r. of_int (score r)) ?g) = Fin q"
    by (simp add: mean_def)
  have "avg_score row = Fin q" using row q by (simp add: aggregate_def Let_def)
  moreover have "cs_cluster row = cid" using row by (simp add: aggregate_def Let_def)
  moreover have "cs_group_type row = determine_group_type cid (Fin q)"
    using row q by (simp add: aggregate_def Let_def)
  ultimately show ?thesis
    by (auto simp: determine_group_type_def startswith_iff)
qed

theorem group_type_rule_witness:
  "ex_stats \<in> set (base_stats ex_crecs)
   \<and> (\<exists>q. avg_score ex_stats = Fin q \<and>
     cs_group_type ex_stats =
       (if \<exists>rest. cs_cluster ex_stats = [78, 45] @ rest then Negative_Risk
        else if \<exists>rest. cs_cluster ex_stats = [80, 45] @ rest then Positive_Strength
        else if q \<le> 32 / 10 then Negative_Risk
        else Positive_Strength))"
proof -
  have h: "ex_stats \<in> set (base_stats ex_crecs)"
    by (simp add: ex_stats_def ex_crecs_def base_stats_def c_df_def aggregate_def mean_def
        determine_group_type_def startswith_def noise_cluster_def ascii_def)
  from group_type_rule [OF h] h show ?thesis by blast
qed

lemma collect_keys:
  "collect (\<lambda>k. case f k of Inl e \<Rightarrow> Inl e | Inr v \<Rightarrow> Inr (k, v)) ks = Inr kvs
     \<Longrightarrow> map fst kvs = ks"
  by (induction ks arbitrary: kvs) (auto split: sum.splits)

text \<open>
  C4. No row of the cluster aggregates has the cluster id \<open>-1\<close>; the aggregates are those
  of the records left after the records of cluster \<open>-1\<close> are removed; and when the loader
  builds the keyword info of the clusters, \<open>-1\<close> is not among its keys.
\<close>

theorem noise_cluster_excluded:
  "noise_cluster \<notin> set (map cs_cluster (base_stats df))
   \<and> base_stats df = base_stats (filter (\<lambda>r. cluster r \<noteq> noise_cluster) df)
   \<and> (cluster_info top_keywords main_df = Inr info \<longrightarrow> noise_cluster \<notin> set (map fst info))"
proof -
  have a: "noise_cluster \<notin> set (map cs_cluster (base_stats df))"
    by (auto simp: base_stats_def aggregate_def Let_def c_df_def)
  have b: "base_stats df = base_stats (filter (\<lambda>r. cluster r \<noteq> noise_cluster) df)"
    by (simp add: base_stats_def c_df_def)
  have c: "cluster_info top_keywords main_df = Inr info \<longrightarrow> noise_cluster \<notin> set (map fst info)"
  proof
    assume "cluster_info top_keywords main_df = Inr info"
    then have "map fst info = filter (\<lambda>cid. cid \<noteq> noise_cluster) (unique (map cluster main_df))"
      unfolding cluster_info_def by (rule collect_keys)
    then show "noise_cluster \<notin> set (map fst info)" by simp
  qed
  from a b c show ?thesis by blast
qed

theorem noise_cluster_excluded_witness:
  "cluster_info (\<lambda>rows. Inr (length rows)) ex_crecs = Inr [(ascii ''N-1'', 1)]
   \<and> noise_cluster \<notin> set (map fst [(ascii ''N-1'', 1::nat)])
   \<and> noise_cluster \<notin> set (map cs_cluster (base_stats ex_crecs))
   \<and> base_stats ex_crecs = [ex_stats]"
proof -
  have h: "cluster_info (\<lambda>rows. Inr (length rows)) ex_crecs = Inr [(ascii ''N-1'', 1)]"
    by (simp add: cluster_info_def ex_crecs_def unique_def noise_cluster_def ascii_def)
  have s: "base_stats ex_crecs = [ex_stats]"
    by (simp add: ex_stats_def ex_crecs_def base_stats_def c_df_def aggregate_def mean_def
        determine_group_type_def startswith_def noise_cluster_def ascii_def)
  from noise_cluster_excluded [of ex_crecs "\<lambda>rows. Inr (length rows)" ex_crecs "[(ascii ''N-1'', 1)]"] h s
  show ?thesis by blast
qed

section \<open>Keyword consolidation: properties\<close>

lemma rstrip_prefix: "\<exists>w. xs = rev (dropWhile P (rev xs)) @ w"
proof -
  have "rev (dropWhile P (rev xs)) @ rev (takeWhile P (rev xs))
      = rev (takeWhile P (rev xs) @ dropWhile P (rev xs))"
    by (simp only: rev_append)
  also have "\<dots> = xs"
    by (simp only: takeWhile_dropWhile_id rev_rev_ident)
  finally show ?thesis by metis
qed

lemma trimmed_strip: "trimmed (strip s)"
proof (cases "strip s = []")
  case True
  then show ?thesis by (simp add: trimmed_def)
next
  case False
  define t where "t = dropWhile py_isspace s"
  define d where "d = dropWhile py_isspace (rev t)"
  have st: "strip s = rev d" by (simp add: strip_def t_def d_def)
  from False st have dne: "d \<noteq> []" by simp
  then have "\<not> py_isspace (hd d)" unfolding d_def by (rule hd_dropWhile)
  then have l: "\<not> py_isspace (last (strip s))"
    using dne st by (simp add: last_rev)
  obtain w where w: "t = rev d @ w"
    unfolding d_def using rstrip_prefix by blast
  from w dne have tne: "t \<noteq> []" by simp
  then have "\<not> py_isspace (hd t)" unfolding t_def by (rule hd_dropWhile)
  moreover have "hd t = hd (rev d)" using w dne by simp
  ultimately have "\<not> py_isspace (hd (strip s))" using st by simp
  with l show ?thesis by (simp add: trimmed_def)
qed

lemma strip_trimmed: "trimmed y \<Longrightarrow> strip y = y"
proof (cases "y = []")
  case True
  then show ?thesis by (simp add: strip_def)
next
  case False
  assume "trimmed y"
  with False have h: "\<not> py_isspace (hd y)" and l: "\<not> py_isspace (last y)"
    by (simp_all add: trimmed_def)
  from h False have a: "dropWhile py_isspace y = y" by (cases y) simp_all
  from l False have "\<not> py_isspace (hd (rev y))" by (simp add: hd_rev)
  with False have b: "dropWhile py_isspace (rev y) = rev y" by (cases "rev y") simp_all
  show ?thesis by (simp add: strip_def a b)
qed

lemma strip_idem: "strip (strip s) = strip s"
  by (rule strip_trimmed) (rule trimmed_strip)

lemmas kw_defs = kw_fun_def kw_game_def kw_update_def kw_hit_feel_def kw_optimization_def
  kw_character_def kw_billing_def kw_operation_def kw_story_def kw_art_graphics_def

lemmas norm_defs = normalize_kw_display_def strip_def py_isspace_def remove_char_def map_dict_def

lemma map_dict_values: "map_of map_dict k = Some v \<Longrightarrow> v \<in> set canonical"
proof -
  assume "map_of map_dict k = Some v"
  then have "(k, v) \<in> set map_dict" by (rule map_of_SomeD)
  then have "v \<in> snd ` set map_dict" by force
  also have "snd ` set map_dict = set canonical"
    by (simp add: map_dict_def canonical_def insert_commute)
  finally show ?thesis .
qed

lemma canonical_fixed: "v \<in> set canonical \<Longrightarrow> normalize_kw_display (PStr v) = PStr v"
proof -
  have 1: "normalize_kw_display (PStr kw_fun) = PStr kw_fun" by (simp add: norm_defs kw_defs)
  have 2: "normalize_kw_display (PStr kw_game) = PStr kw_game" by (simp add: norm_defs kw_defs)
  have 3: "normalize_kw_display (PStr kw_update) = PStr kw_update" by (simp add: norm_defs kw_defs)
  have 4: "normalize_kw_display (PStr kw_hit_feel) = PStr kw_hit_feel" by (simp add: norm_defs kw_defs)
  have 5: "normalize_kw_display (PStr kw_optimization) = PStr kw_optimization" by (simp add: norm_defs kw_defs)
  have 6: "normalize_kw_display (PStr kw_character) = PStr kw_character" by (simp add: norm_defs kw_defs)
  have 7: "normalize_kw_display (PStr kw_billing) = PStr kw_billing" by (simp add: norm_defs kw_defs)
  have 8: "normalize_kw_display (PStr kw_operation) = PStr kw_operation" by (simp add: norm_defs kw_defs)
  have 9: "normalize_kw_display (PStr kw_story) = PStr kw_story" by (simp add: norm_defs kw_defs)
  have 10: "normalize_kw_display (PStr kw_art_graphics) = PStr kw_art_graphics" by (simp add: norm_defs kw_defs)
  assume "v \<in> set canonical"
  then show ?thesis
    unfolding canonical_def using 1 2 3 4 5 6 7 8 9 10 by auto
qed

text \<open>
  C5. Keyword consolidation is idempotent: for every token (and every other value),
  consolidating twice gives what consolidating once gives. Every value of the synonym
  map, and every trimmed token that the map does not hold, is a fixed point of the lookup.
\<close>

theorem normalize_kw_display_idempotent:
  "normalize_kw_display (normalize_kw_display x) = normalize_kw_display x"
proof (cases x)
  case (PStr t)
  let ?text = "strip t"
  let ?ns = "remove_char 32 ?text"
  show ?thesis
  proof (cases "map_of map_dict ?text")
    case (Some v)
    then have "normalize_kw_display x = PStr v" using PStr by (simp add: normalize_kw_display_def)
    moreover have "normalize_kw_display (PStr v) = PStr v"
      using Some by (intro canonical_fixed map_dict_values)
    ultimately show ?thesis by simp
  next
    case None
    note n1 = this
    show ?thesis
    proof (cases "map_of map_dict ?ns")
      case (Some v)
      then have "normalize_kw_display x = PStr v"
        using PStr n1 by (simp add: normalize_kw_display_def)
      moreover have "normalize_kw_display (PStr v) = PStr v"
        using Some by (intro canonical_fixed map_dict_values)
      ultimately show ?thesis by simp
    next
      case None
      then have "normalize_kw_display x = PStr ?text"
        using PStr n1 by (simp add: normalize_kw_display_def)
      moreover have "normalize_kw_display (PStr ?text) = PStr ?text"
        using None n1 by (simp add: normalize_kw_display_def strip_idem)
      ultimately show ?thesis by simp
    qed
  qed
qed (simp_all add: normalize_kw_display_def)

section \<open>Update impact: properties\<close>





lemma ex_checker_df:
  "checker_df ex_reviews =
     [\<lparr>r_at = 1, content = Some (ascii ''Lag is bad''), r_score = 2\<rparr>,
      \<lparr>r_at = 5, content = Some (ascii ''lag is ok''), r_score = 4\<rparr>,
      \<lparr>r_at = 6, content = Some (ascii ''crash''), r_score = 1\<rparr>]"
  by (simp add: checker_df_def ex_reviews_def astype_int_def)

lemma ex_changes: "changes_of ex_release = [ascii ''lag fix'', ascii ''Crash fix'']"
  by (simp add: changes_of_def ex_release_def ascii_def strip_def py_isspace_def)

lemma ex_tokens:
  "first_token (ascii ''lag fix'') = Some (ascii ''lag'')"
  "first_token (ascii ''Crash fix'') = Some (ascii ''Crash'')"
  by (simp_all add: first_token_def ascii_def py_isspace_def)

lemma ex_matches:
  "str_contains ascii_upper (ascii ''lag'') (Some (ascii ''Lag is bad''))"
  "str_contains ascii_upper (ascii ''lag'') (Some (ascii ''lag is ok''))"
  "\<not> str_contains ascii_upper (ascii ''lag'') (Some (ascii ''crash''))"
  "\<not> str_contains ascii_upper (ascii ''Crash'') (Some (ascii ''Lag is bad''))"
  "\<not> str_contains ascii_upper (ascii ''Crash'') (Some (ascii ''lag is ok''))"
  "str_contains ascii_upper (ascii ''Crash'') (Some (ascii ''crash''))"
  by (simp_all add: str_contains_def ascii_upper_def ascii_def startswith_def)

lemma ex_results:
  "results ascii_upper
     [\<lparr>r_at = 1, content = Some (ascii ''Lag is bad''), r_score = 2\<rparr>]
     [\<lparr>r_at = 5, content = Some (ascii ''lag is ok''), r_score = 4\<rparr>,
      \<lparr>r_at = 6, content = Some (ascii ''crash''), r_score = 1\<rparr>]
     [ascii ''lag fix'', ascii ''Crash fix'']
   = [\<lparr>change = ascii ''lag fix'', before_count = 1, after_count = 1,
        before_avg = CFloat (Fin 2), after_avg = CFloat (Fin 4)\<rparr>,
      \<lparr>change = ascii ''Crash fix'', before_count = 0, after_count = 1,
        before_avg = CNone, after_avg = CFloat (Fin 1)\<rparr>]"
  by (simp add: results_def ex_tokens ex_matches avg_cell_def mean_def)

lemma ex_frame:
  "impact_df
     [\<lparr>change = ascii ''lag fix'', before_count = 1, after_count = 1,
        before_avg = CFloat (Fin 2), after_avg = CFloat (Fin 4)\<rparr>,
      \<lparr>change = ascii ''Crash fix'', before_count = 0, after_count = 1,
        before_avg = CNone, after_avg = CFloat (Fin 1)\<rparr>]
   = [\<lparr>change = ascii ''lag fix'', before_count = 1, after_count = 1,
        before_avg = CFloat (Fin 2), after_avg = CFloat (Fin 4)\<rparr>,
      \<lparr>change = ascii ''Crash fix'', before_count = 0, after_count = 1,
        before_avg = CFloat NaN, after_avg = CFloat (Fin 1)\<rparr>]"
  by (simp add: impact_df_def frame_column_def)

lemma ex_scores:
  "compute_score \<lparr>change = c, before_count = 0, after_count = 1,
        before_avg = CFloat NaN, after_avg = CFloat (Fin 1)\<rparr> = NaN"
  "compute_score \<lparr>change = c, before_count = 1, after_count = 1,
        before_avg = CFloat (Fin 2), after_avg = CFloat (Fin 4)\<rparr> = Fin 20"
  by (simp_all add: compute_score_def py_max_def round_half_even_def Let_def)

text \<open>
  C10 at a failing input. The release notes \<open>ex_release\<close> name two changes; the keyword
  of the second, \<open>Crash\<close>, matches no review before the update date 5 and one review
  after it. The loop stores \<open>None\<close> as its \<open>before_avg\<close>, the data frame turns it into
  NaN because the first change has an average, and the score of the second change is NaN,
  not 0.
\<close>

theorem zero_before_matches_score_is_nan:
  "results ascii_upper (filter (\<lambda>r. r_at r < 5) (checker_df ex_reviews))
       (filter (\<lambda>r. r_at r \<ge> 5) (checker_df ex_reviews)) (changes_of ex_release)
     = [\<lparr>change = ascii ''lag fix'', before_count = 1, after_count = 1,
          before_avg = CFloat (Fin 2), after_avg = CFloat (Fin 4)\<rparr>,
        \<lparr>change = ascii ''Crash fix'', before_count = 0, after_count = 1,
          before_avg = CNone, after_avg = CFloat (Fin 1)\<rparr>]
   \<and> impact_scores ascii_upper ex_reviews ex_release 5
     = Some [(ascii ''lag fix'', Fin 20), (ascii ''Crash fix'', NaN)]"
proof -
  have o: "dropna_at ex_reviews \<noteq> []" by (simp add: dropna_at_def ex_reviews_def)
  have r: "strip ex_release \<noteq> []"
    by (simp add: ex_release_def ascii_def strip_def py_isspace_def)
  have a: "results ascii_upper (filter (\<lambda>r. r_at r < 5) (checker_df ex_reviews))
       (filter (\<lambda>r. r_at r \<ge> 5) (checker_df ex_reviews)) (changes_of ex_release)
     = [\<lparr>change = ascii ''lag fix'', before_count = 1, after_count = 1,
          before_avg = CFloat (Fin 2), after_avg = CFloat (Fin 4)\<rparr>,
        \<lparr>change = ascii ''Crash fix'', before_count = 0, after_count = 1,
          before_avg = CNone, after_avg = CFloat (Fin 1)\<rparr>]"
    by (simp add: ex_checker_df ex_changes ex_results)
  have b: "impact_scores ascii_upper ex_reviews ex_release 5
     = Some [(ascii ''lag fix'', Fin 20), (ascii ''Crash fix'', NaN)]"
    unfolding impact_scores_def
    by (simp add: o r ex_checker_df ex_changes ex_results ex_frame ex_scores Let_def)
  from a b show ?thesis by blast
qed

section \<open>Score coercion: properties\<close>










section \<open>The list-field parser: properties\<close>

lemma isna_truth_str: "isna_truth et (PStr s) = Inr False"
  by (simp add: isna_truth_def checknull_def)

lemma comma_split_empty: "comma_split [] = []" "comma_split [91, 93] = []"
  by (simp_all add: comma_split_def remove_char_def strip_def)

lemma strip_Nil: "strip [] = []"
  by (simp add: strip_def)

lemma not_bracketed_Nil: "\<not> bracketed []"
  by (simp add: bracketed_def startswith_def)

lemma robust_eval_list_str:
  "robust_eval_list literal_eval et (PStr s) =
     (if bracketed (strip s) \<and> strip s \<noteq> [91, 93]
      then (case literal_eval (strip s) of
              Some parsed \<Rightarrow> Inr parsed
            | None \<Rightarrow> Inr (PList (map PStr (comma_split (strip s)))))
      else Inr (PList (map PStr (comma_split (strip s)))))"
proof (cases "s = []")
  case True
  then show ?thesis
    by (simp add: robust_eval_list_def isna_truth_str strip_Nil not_bracketed_Nil comma_split_empty)
next
  case False
  then show ?thesis
    by (simp add: robust_eval_list_def isna_truth_str Let_def comma_split_empty)
qed


lemma split_on_nonempty: "split_on c s \<noteq> []"
  by (induction s) (auto split: list.splits)

lemma split_on_no_sep: "c \<notin> set x \<Longrightarrow> split_on c x = [x]"
  by (induction x) auto

lemma split_on_sep: "c \<notin> set x \<Longrightarrow> split_on c (x @ c # rest) = x # split_on c rest"
  by (induction x) (auto split: list.splits)

lemma split_on_join:
  "\<forall>t \<in> set (x # ys). 44 \<notin> set t \<Longrightarrow>
     split_on 44 (join [44, 32] (x # ys)) = x # map ((#) 32) ys"
proof (induction ys arbitrary: x)
  case Nil
  then show ?case by (simp add: split_on_no_sep)
next
  case (Cons y ys)
  have "split_on 44 (join [44, 32] (x # y # ys))
      = split_on 44 (x @ 44 # (32 # join [44, 32] (y # ys)))" by simp
  also have "\<dots> = x # split_on 44 (32 # join [44, 32] (y # ys))"
    using Cons.prems by (intro split_on_sep) simp
  also have "split_on 44 (32 # join [44, 32] (y # ys)) = (32 # y) # map ((#) 32) ys"
    using Cons.IH [of y] Cons.prems by simp
  finally show ?case by simp
qed

lemma strip_space_cons: "py_isspace c \<Longrightarrow> strip (c # x) = strip x"
  by (simp add: strip_def)

lemma clean_token_trimmed: "clean_token x \<Longrightarrow> trimmed x"
  by (simp add: clean_token_def trimmed_def)

lemma clean_token_strip: "clean_token x \<Longrightarrow> strip x = x"
  by (intro strip_trimmed clean_token_trimmed)

lemma clean_tokens_strip:
  "list_all clean_token ys \<Longrightarrow> map strip (map ((#) 32) ys) = ys"
  by (induction ys) (simp_all add: strip_space_cons py_isspace_def clean_token_strip)

lemma set_join: "set (join sep xs) \<subseteq> set sep \<union> \<Union> (set ` set xs)"
  by (induction sep xs rule: join.induct) auto

lemma remove_char_id: "c \<notin> set s \<Longrightarrow> remove_char c s = s"
  by (auto simp: remove_char_def filter_id_conv)

lemma hd_join: "x \<noteq> [] \<Longrightarrow> join sep (x # ys) \<noteq> [] \<and> hd (join sep (x # ys)) = hd x"
  by (cases ys) simp_all

lemma last_join:
  "xs \<noteq> [] \<Longrightarrow> last xs \<noteq> [] \<Longrightarrow> join sep xs \<noteq> [] \<and> last (join sep xs) = last (last xs)"
  by (induction sep xs rule: join.induct) auto

lemma clean_token_chars:
  "clean_token x \<Longrightarrow> c \<in> {44, 91, 93, 39, 34} \<Longrightarrow> c \<notin> set x"
  by (auto simp: clean_token_def list_all_iff)

lemma comma_join_chars:
  assumes "list_all clean_token xs" and "c \<in> {91, 93, 39, 34}"
  shows "c \<notin> set (comma_join xs)"
proof
  assume "c \<in> set (comma_join xs)"
  then have "c \<in> set [44, 32] \<union> \<Union> (set ` set xs)"
    unfolding comma_join_def using set_join by blast
  with assms(2) obtain x where "x \<in> set xs" and "c \<in> set x" by auto
  moreover from this assms(1) have "clean_token x" by (simp add: list_all_iff)
  ultimately show False using assms(2) clean_token_chars by blast
qed

lemma comma_split_comma_join:
  assumes "list_all clean_token xs"
  shows "comma_split (comma_join xs) = xs"
proof (cases xs)
  case Nil
  then show ?thesis by (simp add: comma_join_def comma_split_empty)
next
  case (Cons x ys)
  have cl: "remove_char 34 (remove_char 39 (remove_char 93 (remove_char 91 (comma_join xs))))
          = comma_join xs"
    using comma_join_chars [OF assms] by (simp add: remove_char_id)
  have nc: "\<forall>t \<in> set (x # ys). 44 \<notin> set t"
    using assms Cons clean_token_chars by (auto simp: list_all_iff)
  have sp: "split_on 44 (comma_join xs) = x # map ((#) 32) ys"
    unfolding comma_join_def Cons using nc by (rule split_on_join)
  have x: "clean_token x" and ys: "list_all clean_token ys" using assms Cons by simp_all
  have st: "map strip (x # map ((#) 32) ys) = x # ys"
    using clean_tokens_strip [OF ys] x by (simp add: clean_token_strip)
  have ne: "filter (\<lambda>t. t \<noteq> []) (x # ys) = x # ys"
    using x ys by (auto simp: filter_id_conv list_all_iff clean_token_def)
  have "comma_split (comma_join xs)
      = filter (\<lambda>t. t \<noteq> []) (map strip (split_on 44 (comma_join xs)))"
    by (simp only: comma_split_def Let_def cl)
  also have "\<dots> = x # ys"
    by (simp only: sp st ne)
  finally show ?thesis using Cons by simp
qed

lemma comma_join_trimmed:
  assumes "list_all clean_token xs"
  shows "trimmed (comma_join xs)"
proof (cases xs)
  case Nil
  then show ?thesis by (simp add: comma_join_def trimmed_def)
next
  case (Cons x ys)
  from assms Cons have x: "clean_token x" by simp
  from assms Cons have l: "clean_token (last xs)" by (auto simp: list_all_iff)
  have "hd (comma_join xs) = hd x"
    unfolding comma_join_def Cons using x hd_join by (simp add: clean_token_def)
  moreover have "last (comma_join xs) = last (last xs)"
    unfolding comma_join_def using l Cons last_join [of xs] by (simp add: clean_token_def)
  ultimately show ?thesis
    using x l by (simp add: trimmed_def clean_token_def)
qed

lemma comma_join_not_bracketed:
  assumes "list_all clean_token xs"
  shows "\<not> bracketed (comma_join xs)"
proof (cases xs)
  case Nil
  then show ?thesis by (simp add: comma_join_def not_bracketed_Nil)
next
  case (Cons x ys)
  from assms Cons have x: "clean_token x" by simp
  then have "x \<noteq> []" by (simp add: clean_token_def)
  moreover from x have "91 \<notin> set x" by (rule clean_token_chars) simp
  ultimately have "x \<noteq> []" and "hd x \<noteq> 91" by (auto dest: hd_in_set)
  then have "comma_join xs \<noteq> [] \<and> hd (comma_join xs) \<noteq> 91"
    unfolding comma_join_def Cons using hd_join [of x "[44, 32]" ys] by simp
  then show ?thesis
    by (cases "comma_join xs") (simp_all add: bracketed_def startswith_def)
qed

lemma robust_eval_list_comma_join:
  assumes "list_all clean_token xs"
  shows "robust_eval_list literal_eval et (PStr (comma_join xs)) = Inr (PList (map PStr xs))"
proof -
  have "strip (comma_join xs) = comma_join xs"
    using assms by (intro strip_trimmed comma_join_trimmed)
  then show ?thesis
    using assms
    by (simp add: robust_eval_list_str comma_join_not_bracketed comma_split_comma_join)
qed

lemma list_literal_facts:
  "strip (list_literal xs) = list_literal xs" "bracketed (list_literal xs)"
  "xs \<noteq> [] \<Longrightarrow> list_literal xs \<noteq> [91, 93]" "list_literal [] = [91, 93]"
proof -
  show "strip (list_literal xs) = list_literal xs"
    by (rule strip_trimmed) (simp add: trimmed_def list_literal_def py_isspace_def)
  show "bracketed (list_literal xs)"
    by (simp add: bracketed_def startswith_def endswith_def list_literal_def)
  show "list_literal [] = [91, 93]" by (simp add: list_literal_def)
  assume "xs \<noteq> []"
  then obtain x ys where "xs = x # ys" by (cases xs) auto
  then have "join [44, 32] (map (\<lambda>x. [39] @ x @ [39]) xs) \<noteq> []"
    using hd_join [of "[39] @ x @ [39]" "[44, 32]" "map (\<lambda>x. [39] @ x @ [39]) ys"] by simp
  then show "list_literal xs \<noteq> [91, 93]"
    by (simp add: list_literal_def)
qed

lemma robust_eval_list_missing:
  "robust_eval_list literal_eval et PNone = Inr (PList [])"
  "robust_eval_list literal_eval et PNaN = Inr (PList [])"
  "robust_eval_list literal_eval et (PStr []) = Inr (PList [])"
  "robust_eval_list literal_eval et (PStr [91, 93]) = Inr (PList [])"
  by (simp_all add: robust_eval_list_def isna_truth_def checknull_def strip_def py_isspace_def)

lemma robust_eval_list_literal:
  assumes "literal_eval (list_literal xs) = Some (PList (map PStr xs))"
  shows "robust_eval_list literal_eval et (PStr (list_literal xs)) = Inr (PList (map PStr xs))"
proof (cases "xs = []")
  case True
  then show ?thesis
    by (simp add: list_literal_facts(4) robust_eval_list_missing)
next
  case False
  then show ?thesis
    using assms by (simp add: robust_eval_list_str list_literal_facts)
qed

lemma robust_eval_list_singleton:
  "robust_eval_list literal_eval et (PList [PStr x]) = Inr (PList [PStr x])"
  by (simp add: robust_eval_list_def isna_truth_def checknull_def)

text \<open>
  A list of two strings does not pass the first test of the parser: the truth value of the
  two-item array that \<open>pd.isna\<close> returns is not defined.
\<close>

lemma robust_eval_list_pair:
  "robust_eval_list literal_eval et (PList [PStr x, PStr y]) = Inl ValueError"
  by (simp add: robust_eval_list_def isna_truth_def)


text \<open>
  C1, as the code has it. For every list of keywords that are not empty, have no white
  space at either end and hold no comma, bracket or quote: the list-literal text (when the
  structured parse reads it as that list) and the comma-delimited text both give the
  list. For every string, when the structured parse fails the result is the comma-split
  of the trimmed text, and nothing is raised. A list that holds one string is returned
  unchanged. A missing value, the empty string and \<open>[]\<close> give the empty list.
\<close>

theorem robust_eval_list_encodings:
  assumes "list_all clean_token xs"
    and "literal_eval (list_literal xs) = Some (PList (map PStr xs))"
  shows "robust_eval_list literal_eval et (PStr (list_literal xs)) = Inr (PList (map PStr xs))
    \<and> robust_eval_list literal_eval et (PStr (comma_join xs)) = Inr (PList (map PStr xs))
    \<and> (literal_eval (strip s) = None \<longrightarrow>
         robust_eval_list literal_eval et (PStr s)
           = Inr (PList (map PStr (comma_split (strip s)))))
    \<and> robust_eval_list literal_eval et (PList [PStr x]) = Inr (PList [PStr x])
    \<and> robust_eval_list literal_eval et PNone = Inr (PList [])
    \<and> robust_eval_list literal_eval et PNaN = Inr (PList [])
    \<and> robust_eval_list literal_eval et (PStr []) = Inr (PList [])
    \<and> robust_eval_list literal_eval et (PStr [91, 93]) = Inr (PList [])"
proof -
  have a: "robust_eval_list literal_eval et (PStr (list_literal xs)) = Inr (PList (map PStr xs))"
    using assms(2) by (rule robust_eval_list_literal)
  have b: "robust_eval_list literal_eval et (PStr (comma_join xs)) = Inr (PList (map PStr xs))"
    using assms(1) by (rule robust_eval_list_comma_join)
  have c: "literal_eval (strip s) = None \<longrightarrow>
         robust_eval_list literal_eval et (PStr s)
           = Inr (PList (map PStr (comma_split (strip s))))"
    by (simp add: robust_eval_list_str)
  from a b c robust_eval_list_singleton robust_eval_list_missing show ?thesis by blast
qed

lemma ex_keywords_clean: "list_all clean_token ex_keywords"
  by (simp add: ex_keywords_def clean_token_def ascii_def py_isspace_def)

lemma ex_malformed_fails: "ex_literal_eval (strip ex_malformed) = None"
proof -
  have "strip ex_malformed = ex_malformed"
    by (rule strip_trimmed) (simp add: trimmed_def ex_malformed_def py_isspace_def)
  moreover have "ex_malformed \<noteq> list_literal ex_keywords"
    by (simp add: ex_malformed_def list_literal_def ex_keywords_def ascii_def)
  ultimately show ?thesis by (simp add: ex_literal_eval_def)
qed

theorem robust_eval_list_encodings_witness:
  "list_all clean_token ex_keywords
   \<and> ex_literal_eval (list_literal ex_keywords) = Some (PList (map PStr ex_keywords))
   \<and> robust_eval_list ex_literal_eval (Inr False) (PStr (list_literal ex_keywords))
       = Inr (PList (map PStr ex_keywords))
   \<and> robust_eval_list ex_literal_eval (Inr False) (PStr (comma_join ex_keywords))
       = Inr (PList (map PStr ex_keywords))
   \<and> ex_literal_eval (strip ex_malformed) = None
   \<and> robust_eval_list ex_literal_eval (Inr False) (PStr ex_malformed)
       = Inr (PList (map PStr (comma_split (strip ex_malformed))))"
proof -
  have h2: "ex_literal_eval (list_literal ex_keywords) = Some (PList (map PStr ex_keywords))"
    by (simp add: ex_literal_eval_def)
  from robust_eval_list_encodings [where literal_eval = ex_literal_eval and xs = ex_keywords and et = "Inr False"
        and s = ex_malformed, OF ex_keywords_clean h2]
    ex_keywords_clean h2 ex_malformed_fails
  show ?thesis by blast
qed

text \<open>
  C1 as stated fails: the keyword \<open>it's\<close> comes back unchanged from a list that holds it,
  and as \<open>its\<close> from the comma-delimited text, where the fallback removes the quote.
\<close>

theorem quoted_keyword_encodings_differ:
  "robust_eval_list (\<lambda>s. None) (Inr False) (PList [PStr ex_quoted])
     = Inr (PList [PStr ex_quoted])
   \<and> robust_eval_list (\<lambda>s. None) (Inr False) (PStr (comma_join [ex_quoted]))
     = Inr (PList [PStr (ascii ''its'')])
   \<and> ex_quoted \<noteq> ascii ''its''"
proof -
  have a: "robust_eval_list (\<lambda>s. None) (Inr False) (PList [PStr ex_quoted])
     = Inr (PList [PStr ex_quoted])"
    by (rule robust_eval_list_singleton)
  have s: "strip (comma_join [ex_quoted]) = comma_join [ex_quoted]"
    by (rule strip_trimmed)
       (simp add: trimmed_def comma_join_def ex_quoted_def ascii_def py_isspace_def)
  have b: "robust_eval_list (\<lambda>s. None) (Inr False) (PStr (comma_join [ex_quoted]))
     = Inr (PList [PStr (ascii ''its'')])"
    unfolding robust_eval_list_str s
    by (simp add: comma_split_def comma_join_def ex_quoted_def ascii_def remove_char_def
        strip_def py_isspace_def)
  have c: "ex_quoted \<noteq> ascii ''its''"
    by (simp add: ex_quoted_def ascii_def)
  from a b c show ?thesis by blast
qed




end
